theory Spec2Isabelle
  imports Complex_Main
begin

section \<open>Values and host objects\<close>

text \<open>
  The typography module of basil.js (\<^verbatim>\<open>src/includes/typography.js\<close>) is a facade over the
  object model of the host application. Host objects are kept in a heap and are referred
  to by typed references: the class a reference was obtained with is what
  \<^verbatim>\<open>instanceof\<close> tests.
\<close>

type_synonym ref = nat

datatype hostKind =
    Document | Spread | Page | Layer
  | Story | TextFrame | TextPath
  | Character | Word | Line | Paragraph | Text
  | Rectangle | Oval | Polygon | GraphicLine
  | CharacterStyle | Color | OtherKind

datatype fontStatus = INSTALLED | NOT_AVAILABLE | FAUXED | SUBSTITUTED | UNKNOWN

record font =
  fontFamily :: string
  fontStyleName :: string
  status :: fontStatus

text \<open>
  JavaScript values as far as the module handles them. Numbers are modelled as reals
  (the module only adds, subtracts and halves them); \<open>EveryItem\<close> is the host's
  collective specifier returned by \<^verbatim>\<open>everyItem()\<close>; \<open>Rec\<close> is an object literal
  of property name/value pairs.
\<close>

datatype val =
    Undefined
  | Null
  | Num real
  | Str string
  | Enum string
  | Obj hostKind ref
  | FontObj font
  | EveryItem hostKind "ref list"
  | Arr "val list"
  | Rec "(string \<times> val) list"

record hobj =
  valid :: bool
  textFrames :: "ref list"
  paragraphs :: "ref list"
  texts :: "ref list"
  textPaths :: "ref list"
  characters :: "ref list"
  propTable :: "string \<Rightarrow> val"

datatype rectMode = CORNER | CORNERS | CENTER | RADIUS

datatype anchorPoint = CENTER_ANCHOR | TOP_LEFT_ANCHOR

text \<open>
  The messages of the module's \<^verbatim>\<open>error(...)\<close> calls, one constructor per call site:
  \<open>TextFirstParam\<close> "text(), the first parameter has to be a string!",
  \<open>TextInvalidParams\<close> "text(), invalid parameters.",
  \<open>TextFontWrongParams\<close> "textFont(), wrong parameters.",
  \<open>TextSizeNotPositive\<close> "textSize() must be greater than 0.",
  \<open>TypoOnString\<close> "typo() cannot work on strings.",
  \<open>CharacterStyleDoesNotExist n\<close> "applyCharacterStyle(), a character style named n does not exist.",
  \<open>ApplyCharacterStyleWrongParams\<close> "applyCharacterStyle(), wrong parameters.",
  \<open>CharacterStyleWrongParams\<close> "characterStyle(), wrong parameters.",
  \<open>CharacterStyleWrongProps\<close> "characterStyle(), wrong props parameter.".
  \<open>HostTypeError\<close> is the exception of the script engine when a member of
  \<^verbatim>\<open>undefined\<close> is read.
\<close>

datatype error =
    TextFirstParam
  | TextInvalidParams
  | TextFontWrongParams
  | TextSizeNotPositive
  | TypoOnString
  | CharacterStyleDoesNotExist string
  | ApplyCharacterStyleWrongParams
  | CharacterStyleWrongParams
  | CharacterStyleWrongProps
  | HostTypeError

text \<open>
  The messages of the module's \<^verbatim>\<open>warning(...)\<close> calls: \<open>TypoInvalidObject\<close> is
  "typo(), invalid object passed"; \<open>FontNotInstalled n fam sty\<close> is
  "textFont(), font n not installed. Using current font fam sty instead.".
\<close>

datatype warning =
    TypoInvalidObject
  | FontNotInstalled string string string

text \<open>
  The script's state: the host's object heap with its allocation counter, the log of
  warnings, the log of \<^verbatim>\<open>transform\<close> calls, the current document's character styles,
  the application's fonts by name, the current page and layer, the Current Typography
  Context (the module's \<^verbatim>\<open>curr...\<close> variables), and three capabilities of the host
  and the script engine that the module relies on: into how many paragraphs the host
  composes a contents string, how a number prints, and which values the host accepts
  as the \<^verbatim>\<open>properties\<close> of a style.
\<close>

record state =
  objs :: "ref \<Rightarrow> hobj"
  nextRef :: ref
  warnings :: "warning list"
  transforms :: "(ref \<times> anchorPoint \<times> real \<times> real) list"
  allCharacterStyles :: "ref list"
  fonts :: "string \<Rightarrow> font"
  currPage :: ref
  currLayer :: ref
  currRectMode :: rectMode
  currFont :: font
  currFontSize :: real
  currFillColor :: val
  currAlign :: val
  currYAlign :: val
  currLeading :: val
  currKerning :: val
  currTracking :: val
  hostLayout :: "string \<Rightarrow> nat"
  hostNumToString :: "real \<Rightarrow> string"
  hostAccepts :: "val \<Rightarrow> bool"

type_synonym 'a result = "(error + 'a) \<times> state"

section \<open>Helpers of the library that the module calls\<close>

text \<open>
  Modelled from the spec: \<^verbatim>\<open>error\<close> is defined outside the module; the spec makes every
  error hard (it "terminates the current top-level script invocation"). The state
  reached so far is returned with it.
\<close>

definition error :: "error \<Rightarrow> state \<Rightarrow> 'a result" where
  "error e st = (Inl e, st)"

text \<open>
  Modelled from the spec: \<^verbatim>\<open>warning\<close> is defined outside the module; the spec has it
  "emit a recoverable Warning (no exception)". It appends to the log.
\<close>

definition warning :: "warning \<Rightarrow> state \<Rightarrow> state" where
  "warning w st = st\<lparr>warnings := warnings st @ [w]\<rparr>"

text \<open>Modelled from the spec: \<^verbatim>\<open>isString\<close> and \<^verbatim>\<open>isNumber\<close>, the type tests of the library.\<close>

fun isString :: "val \<Rightarrow> bool" where
  "isString (Str s) = True"
| "isString _ = False"

fun isNumber :: "val \<Rightarrow> bool" where
  "isNumber (Num r) = True"
| "isNumber _ = False"

section \<open>Typography attributes\<close>

text \<open>
  Arity matters in these functions (\<^verbatim>\<open>arguments.length\<close>), so each takes the list of
  the arguments it was called with. A missing parameter reads as \<open>Undefined\<close>.
\<close>

definition arg :: "val list \<Rightarrow> nat \<Rightarrow> val" where
  "arg args i = (if i < length args then args ! i else Undefined)"

definition textAlign :: "val list \<Rightarrow> state \<Rightarrow> val result" where
  "textAlign args st =
     (let st1 = st\<lparr>currAlign := arg args 0\<rparr>;
          st2 = (if length args = 2 then st1\<lparr>currYAlign := arg args 1\<rparr> else st1)
      in (Inr Undefined, st2))"

text \<open>
  \<^verbatim>\<open>fontName.replace("\t", " ")\<close>: a string pattern replaces its first occurrence only.
\<close>

fun replaceFirst :: "char \<Rightarrow> char \<Rightarrow> string \<Rightarrow> string" where
  "replaceFirst a b [] = []"
| "replaceFirst a b (c # cs) = (if c = a then b # cs else c # replaceFirst a b cs)"

definition lookupFont :: "string \<Rightarrow> state \<Rightarrow> font result" where
  "lookupFont fontName st =
     (if status (fonts st fontName) \<noteq> INSTALLED
      then (Inr (currFont st),
            warning (FontNotInstalled (replaceFirst (CHR 0x09) (CHR '' '') fontName)
                       (fontFamily (currFont st)) (fontStyleName (currFont st))) st)
      else (Inr (fonts st fontName), st\<lparr>currFont := fonts st fontName\<rparr>))"

text \<open>
  \<^verbatim>\<open>textFont\<close> builds the host's font name (family, tab, style) from its arguments and
  goes on to the lookup, which is \<open>lookupFont\<close> above (the part of the function after
  its arity test).
\<close>

definition textFont :: "string list \<Rightarrow> state \<Rightarrow> font result" where
  "textFont args st =
     (if length args = 2 then lookupFont (args ! 0 @ [CHR 0x09] @ args ! 1) st
      else if length args = 1 then lookupFont (args ! 0 @ [CHR 0x09] @ ''Regular'') st
      else if length args = 0 then (Inr (currFont st), st)
      else error TextFontWrongParams st)"

definition textKerning :: "val list \<Rightarrow> state \<Rightarrow> val result" where
  "textKerning args st =
     (let st1 = (if length args = 1 then st\<lparr>currKerning := args ! 0\<rparr> else st)
      in (Inr (currKerning st1), st1))"

definition textLeading :: "val list \<Rightarrow> state \<Rightarrow> val result" where
  "textLeading args st =
     (let st1 = (if length args = 1 then st\<lparr>currLeading := args ! 0\<rparr> else st)
      in (Inr (currLeading st1), st1))"

text \<open>The parameter of \<^verbatim>\<open>textSize\<close> is documented as a number and compared with 0.\<close>

definition textSize :: "real list \<Rightarrow> state \<Rightarrow> real result" where
  "textSize args st =
     (if length args = 1 then
        (if args ! 0 > 0 then (Inr (args ! 0), st\<lparr>currFontSize := args ! 0\<rparr>)
         else error TextSizeNotPositive st)
      else (Inr (currFontSize st), st))"

definition textTracking :: "val list \<Rightarrow> state \<Rightarrow> val result" where
  "textTracking args st =
     (let st1 = (if length args = 1 then st\<lparr>currTracking := args ! 0\<rparr> else st)
      in (Inr (currTracking st1), st1))"

section \<open>Text properties: typo\<close>

text \<open>
  The item \<^verbatim>\<open>typo\<close> is given is a string (which the function refuses) or a reference
  to a host object. Its \<^verbatim>\<open>property\<close> parameter is a property name, an object of
  name/value pairs (\<^verbatim>\<open>typeof property === "object"\<close>; \<^verbatim>\<open>null\<close> is one with no pairs), or
  a value of any other type.
\<close>

datatype target = TStr string | TObj hostKind ref

datatype propArg = PropName string | PropMap "(string \<times> val) list" | PropOther

text \<open>What \<^verbatim>\<open>typo\<close> returns: \<^verbatim>\<open>undefined\<close> (a bare \<^verbatim>\<open>return;\<close>) or the array \<^verbatim>\<open>result\<close>.\<close>

datatype ret = RetUndefined | RetArray "val list"

text \<open>
  Modelled from the spec: \<^verbatim>\<open>isValid\<close> is defined outside the module; the spec calls it
  "a validity check for any held reference (to detect staleness after external document
  mutation)". The host keeps the flag with the object.
\<close>

definition isValid :: "state \<Rightarrow> ref \<Rightarrow> bool" where
  "isValid st r = valid (objs st r)"

text \<open>
  Modelled from the spec: \<^verbatim>\<open>isText\<close> is defined outside the module; the spec's text
  ranges are "character/word/line/paragraph-level", and the module's documentation
  adds the host's generic \<^verbatim>\<open>Text\<close>.
\<close>

definition isText :: "hostKind \<Rightarrow> bool" where
  "isText k = (k = Character \<or> k = Word \<or> k = Line \<or> k = Paragraph \<or> k = Text)"

text \<open>
  Modelled from the spec: \<^verbatim>\<open>forEach\<close> is defined outside the module; the spec has the
  callback run "over every text-frame child", in child traversal order. An error of the
  callback ends the loop, as the exception would.
\<close>

fun forEach :: "'a list \<Rightarrow> ('a \<Rightarrow> state \<Rightarrow> unit result) \<Rightarrow> state \<Rightarrow> unit result" where
  "forEach [] cb st = (Inr (), st)"
| "forEach (x # xs) cb st =
     (case cb x st of
        (Inl e, st1) \<Rightarrow> (Inl e, st1)
      | (Inr u, st1) \<Rightarrow> forEach xs cb st1)"

text \<open>\<^verbatim>\<open>setProperty\<close>: \<^verbatim>\<open>textItem[prop] = val\<close>, an assignment the host accepts.\<close>

definition setProperty :: "ref \<Rightarrow> string \<Rightarrow> val \<Rightarrow> state \<Rightarrow> state" where
  "setProperty textItem prop v st =
     st\<lparr>objs := (objs st)(textItem := (objs st textItem)
            \<lparr>propTable := (propTable (objs st textItem))(prop := v)\<rparr>)\<rparr>"

text \<open>\<^verbatim>\<open>textItem[property]\<close>, a read.\<close>

definition getProperty :: "state \<Rightarrow> ref \<Rightarrow> string \<Rightarrow> val" where
  "getProperty st textItem prop = propTable (objs st textItem) prop"

text \<open>The loop \<^verbatim>\<open>for (var prop in property)\<close> of \<^verbatim>\<open>setProperties\<close>.\<close>

fun setEach :: "ref \<Rightarrow> (string \<times> val) list \<Rightarrow> state \<Rightarrow> state" where
  "setEach textItem [] st = st"
| "setEach textItem ((prop, v) # kvs) st = setEach textItem kvs (setProperty textItem prop v st)"

text \<open>
  The closures of \<^verbatim>\<open>typo\<close> share \<^verbatim>\<open>result\<close>, \<^verbatim>\<open>property\<close> and \<^verbatim>\<open>value\<close>; here
  they take them as parameters and return the new \<^verbatim>\<open>result\<close> with the state. A text
  item is pushed as the reference it is.
\<close>

definition actsAsGetter :: "propArg \<Rightarrow> val \<Rightarrow> bool" where
  "actsAsGetter property v =
     ((case property of PropName p \<Rightarrow> True | _ \<Rightarrow> False) \<and> (v = Undefined \<or> v = Null))"

definition setProperties :: "propArg \<Rightarrow> val \<Rightarrow> hostKind \<times> ref \<Rightarrow> val list \<times> state \<Rightarrow> val list \<times> state" where
  "setProperties property v textItem rs =
     (case property of
        PropName p \<Rightarrow>
          (fst rs @ [Obj (fst textItem) (snd textItem)], setProperty (snd textItem) p v (snd rs))
      | PropMap kvs \<Rightarrow>
          (fst rs @ [Obj (fst textItem) (snd textItem)], setEach (snd textItem) kvs (snd rs))
      | PropOther \<Rightarrow> rs)"

definition getOrSetProperties :: "propArg \<Rightarrow> val \<Rightarrow> hostKind \<times> ref \<Rightarrow> val list \<times> state \<Rightarrow> val list \<times> state" where
  "getOrSetProperties property v textItem rs =
     (if actsAsGetter property v then
        (case property of
           PropName p \<Rightarrow> (fst rs @ [getProperty (snd rs) (snd textItem) p], snd rs)
         | _ \<Rightarrow> rs)
      else setProperties property v textItem rs)"

text \<open>
  The loop \<^verbatim>\<open>for (var i = paras.length - 1; i >= 0; i--)\<close>; the counter here is
  \<open>i + 1\<close>, so that it ends at 0.
\<close>

fun parasLoop :: "nat \<Rightarrow> ref list \<Rightarrow> propArg \<Rightarrow> val \<Rightarrow> val list \<times> state \<Rightarrow> val list \<times> state" where
  "parasLoop 0 paras property v rs = rs"
| "parasLoop (Suc i) paras property v rs =
     parasLoop i paras property v (getOrSetProperties property v (Paragraph, paras ! i) rs)"

text \<open>
  \<^verbatim>\<open>item.texts[0]\<close> of a text path: reading \<^verbatim>\<open>paragraphs\<close> of a missing first
  element is a type error of the script engine.
\<close>

definition parasOf :: "state \<Rightarrow> hostKind \<Rightarrow> ref \<Rightarrow> ref list option" where
  "parasOf st k r =
     (if k = TextPath then
        (case texts (objs st r) of [] \<Rightarrow> None | t # ts \<Rightarrow> Some (paragraphs (objs st t)))
      else Some (paragraphs (objs st r)))"

function typo :: "target \<Rightarrow> propArg \<Rightarrow> val \<Rightarrow> state \<Rightarrow> ret result" where
  "typo (TStr s) property v st = error TypoOnString st"
| "typo (TObj k r) property v st =
     (if \<not> isValid st r then (Inr RetUndefined, warning TypoInvalidObject st)
      else if k = Document \<or> k = Spread \<or> k = Page \<or> k = Layer then
        (case forEach (textFrames (objs st r))
                (\<lambda>textFrame s.
                   case typo (TObj TextFrame textFrame) property v s of
                     (Inl e, s1) \<Rightarrow> (Inl e, s1)
                   | (Inr res, s1) \<Rightarrow> (Inr (), s1)) st of
           (Inl e, st1) \<Rightarrow> (Inl e, st1)
         | (Inr u, st1) \<Rightarrow> (Inr (RetArray []), st1))
      else if k = Story \<or> k = TextFrame \<or> k = TextPath then
        (case parasOf st k r of
           None \<Rightarrow> error HostTypeError st
         | Some paras \<Rightarrow>
             (let rs = parasLoop (length paras) paras property v ([], st)
              in (Inr (RetArray (fst rs)), snd rs)))
      else if isText k then
        (let rs = getOrSetProperties property v (k, r) ([], st)
         in (Inr (RetArray (fst rs)), snd rs))
      else (Inr (RetArray []), st))"
  by pat_completeness auto
termination
  by (relation "measure (\<lambda>(item, property, v, st).
        case item of
          TObj k r \<Rightarrow> (if k = Document \<or> k = Spread \<or> k = Page \<or> k = Layer then 1 else 0)
        | TStr s \<Rightarrow> 0)") auto

section \<open>Creating text: text\<close>

text \<open>
  What the module asks of the host when it places text. The host allocates objects; a
  new object is valid and has no properties yet. Assigning \<^verbatim>\<open>contents\<close> makes the host
  compose the string into paragraphs (as many as \<open>hostLayout\<close> says), which belong to
  the container, or to the first text of a text path.
\<close>

definition emptyObj :: hobj where
  "emptyObj = \<lparr>valid = True, textFrames = [], paragraphs = [], texts = [], textPaths = [],
                characters = [], propTable = (\<lambda>p. Undefined)\<rparr>"

definition hostNew :: "state \<Rightarrow> ref \<times> state" where
  "hostNew st =
     (nextRef st, st\<lparr>objs := (objs st)(nextRef st := emptyObj), nextRef := Suc (nextRef st)\<rparr>)"

fun hostNewList :: "nat \<Rightarrow> state \<Rightarrow> ref list \<times> state" where
  "hostNewList 0 st = ([], st)"
| "hostNewList (Suc n) st =
     (let a = hostNew st; b = hostNewList n (snd a) in (fst a # fst b, snd b))"

definition setParagraphs :: "ref \<Rightarrow> ref list \<Rightarrow> state \<Rightarrow> state" where
  "setParagraphs r ps st = st\<lparr>objs := (objs st)(r := (objs st r)\<lparr>paragraphs := ps\<rparr>)\<rparr>"

definition setContents :: "hostKind \<Rightarrow> ref \<Rightarrow> string \<Rightarrow> state \<Rightarrow> state" where
  "setContents k r s st =
     (let st1 = setProperty r ''contents'' (Str s) st;
          a = hostNewList (hostLayout st s) st1
      in if k = TextPath then
           (case texts (objs (snd a) r) of
              [] \<Rightarrow> snd a
            | t # ts \<Rightarrow> setParagraphs t (fst a) (snd a))
         else setParagraphs r (fst a) (snd a))"

text \<open>\<^verbatim>\<open>currentPage().textFrames.add(currentLayer())\<close>.\<close>

definition addTextFrame :: "state \<Rightarrow> ref \<times> state" where
  "addTextFrame st =
     (let a = hostNew st;
          st1 = setProperty (fst a) ''itemLayer'' (Obj Layer (currLayer st)) (snd a);
          page = objs st1 (currPage st)
      in (fst a, st1\<lparr>objs := (objs st1)(currPage st := page\<lparr>textFrames := textFrames page @ [fst a]\<rparr>)\<rparr>))"

text \<open>\<^verbatim>\<open>x.textPaths.add()\<close>: a new text path on the line, with its first text.\<close>

definition addTextPath :: "ref \<Rightarrow> state \<Rightarrow> ref \<times> state" where
  "addTextPath line st =
     (let a = hostNew st;
          b = hostNew (snd a);
          st1 = snd b;
          st2 = st1\<lparr>objs := (objs st1)(fst a := (objs st1 (fst a))\<lparr>texts := [fst b]\<rparr>)\<rparr>
      in (fst a, st2\<lparr>objs := (objs st2)(line := (objs st2 line)
                        \<lparr>textPaths := textPaths (objs st2 line) @ [fst a]\<rparr>)\<rparr>))"

text \<open>
  \<^verbatim>\<open>textContainer.transform(PASTEBOARD_COORDINATES, anchor, currMatrix.adobeMatrix(x, y))\<close>:
  where the frame ends up on the page is the host's business; the call is logged with its
  anchor and the point, and the properties of the frame stay as the module assigned them.
\<close>

definition hostTransform :: "ref \<Rightarrow> anchorPoint \<Rightarrow> real \<Rightarrow> real \<Rightarrow> state \<Rightarrow> state" where
  "hostTransform r anchor x y st = st\<lparr>transforms := transforms st @ [(r, anchor, x, y)]\<rparr>"

text \<open>\<^verbatim>\<open>txt.toString()\<close> of a string or a number.\<close>

definition toString :: "state \<Rightarrow> val \<Rightarrow> string" where
  "toString st txt = (case txt of Str s \<Rightarrow> s | Num r \<Rightarrow> hostNumToString st r | _ \<Rightarrow> [])"

text \<open>
  The array \<^verbatim>\<open>textBounds\<close> that the numeric branch of \<^verbatim>\<open>text\<close> fills, by
  \<^verbatim>\<open>currRectMode\<close>: top, left, bottom, right.
\<close>

definition textBounds :: "rectMode \<Rightarrow> real \<Rightarrow> real \<Rightarrow> real \<Rightarrow> real \<Rightarrow> real list" where
  "textBounds m x y w h =
     (if m = CORNER then [y, x, y + h, x + w]
      else if m = CORNERS then [y, x, h, w]
      else if m = CENTER then [y - (h / 2), x - (w / 2), y + (h / 2), x + (w / 2)]
      else if m = RADIUS then [y - h, x - w, y + h, x + w]
      else [])"

text \<open>
  The branches of \<^verbatim>\<open>text\<close> on its second argument \<^verbatim>\<open>x\<close>; \<open>rest\<close> holds the
  arguments after \<^verbatim>\<open>x\<close>, numbers as documented, so \<^verbatim>\<open>arguments.length === 5\<close> is
  \<open>length rest = 3\<close>. A shape whose content type is set to text is a text frame from
  then on.
\<close>

definition placeText :: "val \<Rightarrow> val \<Rightarrow> real list \<Rightarrow> state \<Rightarrow> (hostKind \<times> ref) result" where
  "placeText txt x rest st =
     (case x of
        Obj k r \<Rightarrow>
          if k = Rectangle \<or> k = Oval \<or> k = Polygon \<or> k = TextFrame then
            (let st1 = setProperty r ''contentType'' (Enum ''TEXT_TYPE'') st
             in (Inr (TextFrame, r), setContents TextFrame r (toString st txt) st1))
          else if k = GraphicLine then
            (let a = addTextPath r st
             in (Inr (TextPath, fst a), setContents TextPath (fst a) (toString st txt) (snd a)))
          else error TextInvalidParams st
      | Num xn \<Rightarrow>
          if length rest = 3 then
            (let y = rest ! 0; w = rest ! 1; h = rest ! 2;
                 bounds = textBounds (currRectMode st) xn y w h;
                 a = addTextFrame st;
                 st1 = setContents TextFrame (fst a) (toString st txt) (snd a);
                 st2 = setProperty (fst a) ''geometricBounds'' (Arr (map Num bounds)) st1;
                 st3 = setProperty (fst a) ''textFramePreferences.verticalJustification''
                         (currYAlign st) st2;
                 st4 = (if currRectMode st = CENTER \<or> currRectMode st = RADIUS
                        then hostTransform (fst a) CENTER_ANCHOR xn y st3
                        else hostTransform (fst a) TOP_LEFT_ANCHOR xn y st3)
             in (Inr (TextFrame, fst a), st4))
          else error TextInvalidParams st
      | _ \<Rightarrow> error TextInvalidParams st)"

definition stamp :: "state \<Rightarrow> (string \<times> val) list" where
  "stamp st =
     [(''appliedFont'', FontObj (currFont st)),
      (''pointSize'', Num (currFontSize st)),
      (''fillColor'', currFillColor st),
      (''justification'', currAlign st),
      (''leading'', currLeading st),
      (''kerningValue'', currKerning st),
      (''tracking'', currTracking st)]"

definition text_pub :: "val \<Rightarrow> val \<Rightarrow> real list \<Rightarrow> state \<Rightarrow> val result" where
  "text_pub txt x rest st =
     (if \<not> (isString txt \<or> isNumber txt) then error TextFirstParam st
      else
        (case placeText txt x rest st of
           (Inl e, st1) \<Rightarrow> (Inl e, st1)
         | (Inr textContainer, st1) \<Rightarrow>
             (case typo (TObj (fst textContainer) (snd textContainer)) (PropMap (stamp st1)) Undefined st1 of
                (Inl e, st2) \<Rightarrow> (Inl e, st2)
              | (Inr res, st2) \<Rightarrow> (Inr (Obj (fst textContainer) (snd textContainer)), st2))))"

section \<open>Styles\<close>

text \<open>
  Modelled from the spec: \<^verbatim>\<open>findInStylesByName\<close> is defined outside the module; the
  spec has it "search the active document's style collection by exact name match".
  Nothing found is \<open>None\<close>, which the module tests with \<^verbatim>\<open>!style\<close>.
\<close>

definition findInStylesByName :: "state \<Rightarrow> ref list \<Rightarrow> string \<Rightarrow> ref option" where
  "findInStylesByName st styles name = find (\<lambda>r. getProperty st r ''name'' = Str name) styles"

text \<open>
  \<^verbatim>\<open>currentDoc().characterStyles.add({name: textOrName})\<close>: the host creates a style of
  that name in the document, after the styles it has.
\<close>

definition addCharacterStyle :: "string \<Rightarrow> state \<Rightarrow> ref \<times> state" where
  "addCharacterStyle name st =
     (let a = hostNew st;
          st1 = setProperty (fst a) ''name'' (Str name) (snd a)
      in (fst a, st1\<lparr>allCharacterStyles := allCharacterStyles st1 @ [fst a]\<rparr>))"

text \<open>\<^verbatim>\<open>if (props)\<close>: the truth value of a JavaScript value.\<close>

definition truthy :: "val \<Rightarrow> bool" where
  "truthy v = (case v of Undefined \<Rightarrow> False | Null \<Rightarrow> False | Num r \<Rightarrow> r \<noteq> 0
                 | Str s \<Rightarrow> s \<noteq> [] | _ \<Rightarrow> True)"

text \<open>
  \<^verbatim>\<open>style.properties = props\<close> inside \<^verbatim>\<open>try\<close>: \<open>None\<close> when it throws, which it
  does when the style is no host object or the host refuses the value.
\<close>

definition assignProperties :: "val \<Rightarrow> val \<Rightarrow> state \<Rightarrow> state option" where
  "assignProperties style ps st =
     (case style of
        Obj k r \<Rightarrow>
          (case ps of
             Rec kvs \<Rightarrow> if hostAccepts st ps then Some (setEach r kvs st) else None
           | _ \<Rightarrow> None)
      | _ \<Rightarrow> None)"

definition isTextVal :: "val \<Rightarrow> bool" where
  "isTextVal v = (case v of Obj k r \<Rightarrow> isText k | _ \<Rightarrow> False)"

definition instanceOf :: "val \<Rightarrow> hostKind \<Rightarrow> bool" where
  "instanceOf v k = (case v of Obj k1 r \<Rightarrow> k1 = k | _ \<Rightarrow> False)"

definition characterStyle :: "val list \<Rightarrow> state \<Rightarrow> val result" where
  "characterStyle args st =
     (if 2 < length args then error CharacterStyleWrongParams st
      else
        (let textOrName = arg args 0; ps = arg args 1;
             found =
               (case textOrName of
                  Obj k r \<Rightarrow>
                    if isText k then (Inr (getProperty st r ''appliedCharacterStyle''), st)
                    else error CharacterStyleWrongParams st
                | Str name \<Rightarrow>
                    (case findInStylesByName st (allCharacterStyles st) name of
                       Some s \<Rightarrow> (Inr (Obj CharacterStyle s), st)
                     | None \<Rightarrow>
                         (let a = addCharacterStyle name st
                          in (Inr (Obj CharacterStyle (fst a)), snd a)))
                | _ \<Rightarrow> error CharacterStyleWrongParams st)
         in case found of
              (Inl e, st1) \<Rightarrow> (Inl e, st1)
            | (Inr style, st1) \<Rightarrow>
                if truthy ps then
                  (case assignProperties style ps st1 of
                     None \<Rightarrow> error CharacterStyleWrongProps st1
                   | Some st2 \<Rightarrow> (Inr style, st2))
                else (Inr style, st1)))"

text \<open>\<^verbatim>\<open>text.appliedCharacterStyle = style\<close>, on one object or on every item of a collection.\<close>

fun setOnAll :: "ref list \<Rightarrow> string \<Rightarrow> val \<Rightarrow> state \<Rightarrow> state" where
  "setOnAll [] prop v st = st"
| "setOnAll (r # rs) prop v st = setOnAll rs prop v (setProperty r prop v st)"

definition applyCharacterStyle :: "val \<Rightarrow> val \<Rightarrow> state \<Rightarrow> val result" where
  "applyCharacterStyle text style st =
     (case (case style of
              Str name \<Rightarrow>
                (case findInStylesByName st (allCharacterStyles st) name of
                   None \<Rightarrow> Inl (CharacterStyleDoesNotExist name)
                 | Some s \<Rightarrow> Inr (Obj CharacterStyle s))
            | _ \<Rightarrow> Inr style) of
        Inl e \<Rightarrow> error e st
      | Inr style1 \<Rightarrow>
          if \<not> (isTextVal text \<or> instanceOf text TextFrame \<or> instanceOf text Story)
             \<or> \<not> instanceOf style1 CharacterStyle
          then error ApplyCharacterStyleWrongParams st
          else
            (case text of
               Obj k r \<Rightarrow>
                 if k = TextFrame then
                   (Inr (EveryItem Character (characters (objs st r))),
                    setOnAll (characters (objs st r)) ''appliedCharacterStyle'' style1 st)
                 else (Inr text, setProperty r ''appliedCharacterStyle'' style1 st)
             | _ \<Rightarrow> error ApplyCharacterStyleWrongParams st))"

section \<open>A concrete document\<close>

text \<open>
  A small state to evaluate the functions on: a text frame (3) with two paragraphs (4, 5)
  of point sizes 10 and 20, a stale reference (6), a document (7) holding the frame, a
  character style named Title (12), and Helvetica Regular and Bold as the installed fonts.
\<close>

definition helvetica :: "string \<Rightarrow> font" where
  "helvetica sty = \<lparr>fontFamily = ''Helvetica'', fontStyleName = sty, status = INSTALLED\<rparr>"

definition exampleFonts :: "string \<Rightarrow> font" where
  "exampleFonts n =
     (if n = ''Helvetica'' @ [CHR 0x09] @ ''Regular'' then helvetica ''Regular''
      else if n = ''Helvetica'' @ [CHR 0x09] @ ''Bold'' then helvetica ''Bold''
      else \<lparr>fontFamily = [], fontStyleName = [], status = NOT_AVAILABLE\<rparr>)"

definition exampleObjs :: "ref \<Rightarrow> hobj" where
  "exampleObjs =
     (\<lambda>r. emptyObj)
       (3 := emptyObj\<lparr>paragraphs := [4, 5]\<rparr>,
        4 := emptyObj\<lparr>propTable := (\<lambda>p. Undefined)(''pointSize'' := Num 10)\<rparr>,
        5 := emptyObj\<lparr>propTable := (\<lambda>p. Undefined)(''pointSize'' := Num 20)\<rparr>,
        6 := emptyObj\<lparr>valid := False\<rparr>,
        7 := emptyObj\<lparr>textFrames := [3]\<rparr>,
        12 := emptyObj\<lparr>propTable := (\<lambda>p. Undefined)(''name'' := Str ''Title'')\<rparr>)"

definition exampleState :: state where
  "exampleState =
     \<lparr>objs = exampleObjs, nextRef = 20, warnings = [], transforms = [],
      allCharacterStyles = [12], fonts = exampleFonts,
      currPage = 1, currLayer = 2, currRectMode = CORNER,
      currFont = helvetica ''Regular'', currFontSize = 12,
      currFillColor = Obj Color 13, currAlign = Enum ''LEFT_ALIGN'',
      currYAlign = Enum ''TOP_ALIGN'', currLeading = Enum ''AUTO'',
      currKerning = Num 0, currTracking = Num 0,
      hostLayout = (\<lambda>s. 1), hostNumToString = (\<lambda>r. ''0''), hostAccepts = (\<lambda>v. True)\<rparr>"

section \<open>Facts about the host operations\<close>

declare typo.simps [simp del]

lemma setProperty_valid [simp]: "valid (objs (setProperty t p v st) q) = valid (objs st q)"
  by (simp add: setProperty_def)

lemma setProperty_paragraphs [simp]:
  "paragraphs (objs (setProperty t p v st) q) = paragraphs (objs st q)"
  by (simp add: setProperty_def)

lemma setProperty_texts [simp]: "texts (objs (setProperty t p v st) q) = texts (objs st q)"
  by (simp add: setProperty_def)

lemma setProperty_get [simp]:
  "getProperty (setProperty t p v st) q p' = (if q = t \<and> p' = p then v else getProperty st q p')"
  by (simp add: setProperty_def getProperty_def)

lemma setProperty_nextRef [simp]: "nextRef (setProperty t p v st) = nextRef st"
  by (simp add: setProperty_def)

lemma setProperty_textFrames [simp]:
  "textFrames (objs (setProperty t p v st) q) = textFrames (objs st q)"
  by (simp add: setProperty_def)

lemma isValid_setProperty [simp]: "isValid (setProperty t p v st) r = isValid st r"
  by (simp add: isValid_def)

lemma parasOf_setProperty [simp]: "parasOf (setProperty t p v st) k r = parasOf st k r"
  by (simp add: parasOf_def split: list.splits)

lemma setOnAll_valid [simp]: "valid (objs (setOnAll qs p v st) q) = valid (objs st q)"
  by (induction qs arbitrary: st) simp_all

lemma setOnAll_paragraphs [simp]:
  "paragraphs (objs (setOnAll qs p v st) q) = paragraphs (objs st q)"
  by (induction qs arbitrary: st) simp_all

lemma setOnAll_texts [simp]: "texts (objs (setOnAll qs p v st) q) = texts (objs st q)"
  by (induction qs arbitrary: st) simp_all

lemma setOnAll_get [simp]:
  "getProperty (setOnAll qs p v st) q p' =
     (if q \<in> set qs \<and> p' = p then v else getProperty st q p')"
  by (induction qs arbitrary: st) simp_all

lemma setEach_valid [simp]: "valid (objs (setEach t kvs st) q) = valid (objs st q)"
  by (induction t kvs st rule: setEach.induct) simp_all

lemma setEach_paragraphs [simp]:
  "paragraphs (objs (setEach t kvs st) q) = paragraphs (objs st q)"
  by (induction t kvs st rule: setEach.induct) simp_all

lemma setEach_texts [simp]: "texts (objs (setEach t kvs st) q) = texts (objs st q)"
  by (induction t kvs st rule: setEach.induct) simp_all

lemma setEach_other:
  "p' \<notin> fst ` set kvs \<Longrightarrow> getProperty (setEach t kvs st) q p' = getProperty st q p'"
  by (induction t kvs st rule: setEach.induct) simp_all

lemma parasOf_setOnAll [simp]: "parasOf (setOnAll qs p v st) k r = parasOf st k r"
  by (simp add: parasOf_def split: list.splits)

lemma isValid_setOnAll [simp]: "isValid (setOnAll qs p v st) r = isValid st r"
  by (simp add: isValid_def)

lemma hostNewList_below:
  "q < nextRef st \<Longrightarrow> objs (snd (hostNewList n st)) q = objs st q"
proof (induction n arbitrary: st)
  case 0
  then show ?case by simp
next
  case (Suc n)
  have "q < nextRef (snd (hostNew st))"
    using Suc.prems by (simp add: hostNew_def)
  then have "objs (snd (hostNewList n (snd (hostNew st)))) q = objs (snd (hostNew st)) q"
    by (rule Suc.IH)
  then show ?case
    using Suc.prems by (simp add: Let_def hostNew_def)
qed

lemma hostTransform_objs [simp]: "objs (hostTransform r a x y st) = objs st"
  by (simp add: hostTransform_def)

lemma hostTransform_get [simp]: "getProperty (hostTransform r a x y st) = getProperty st"
  by (simp add: getProperty_def fun_eq_iff)

lemma addTextFrame_fst [simp]: "fst (addTextFrame st) = nextRef st"
  by (simp add: addTextFrame_def Let_def hostNew_def)

lemma addTextFrame_valid: "valid (objs (snd (addTextFrame st)) (nextRef st))"
  by (simp add: addTextFrame_def Let_def hostNew_def emptyObj_def setProperty_def)

lemma addTextFrame_next: "nextRef (snd (addTextFrame st)) = Suc (nextRef st)"
  by (simp add: addTextFrame_def Let_def hostNew_def setProperty_def)

lemma setContents_valid:
  "r < nextRef st \<Longrightarrow> valid (objs (setContents TextFrame r s st) r) = valid (objs st r)"
  by (simp add: setContents_def Let_def setParagraphs_def hostNewList_below)

section \<open>Facts about typo\<close>

lemma getter_step:
  "v = Undefined \<or> v = Null \<Longrightarrow>
   getOrSetProperties (PropName p) v (k, q) (res, st) = (res @ [getProperty st q p], st)"
  by (auto simp: getOrSetProperties_def actsAsGetter_def)

lemma setter_step:
  "v \<noteq> Undefined \<Longrightarrow> v \<noteq> Null \<Longrightarrow>
   getOrSetProperties (PropName p) v (k, q) (res, st) = (res @ [Obj k q], setProperty q p v st)"
  by (simp add: getOrSetProperties_def actsAsGetter_def setProperties_def)

text \<open>The backwards loop, reading: it collects the values from the last paragraph to the first.\<close>

lemma parasLoop_get:
  "v = Undefined \<or> v = Null \<Longrightarrow> n \<le> length ps \<Longrightarrow>
   parasLoop n ps (PropName p) v (res, st) =
     (res @ rev (map (\<lambda>q. getProperty st q p) (take n ps)), st)"
proof (induction n arbitrary: res)
  case 0
  then show ?case by simp
next
  case (Suc n)
  then have "n < length ps" by simp
  then have "take (Suc n) ps = take n ps @ [ps ! n]"
    by (simp add: take_Suc_conv_app_nth)
  with Suc show ?case
    by (simp add: getter_step)
qed

text \<open>The backwards loop, writing one named property.\<close>

lemma parasLoop_set:
  "v \<noteq> Undefined \<Longrightarrow> v \<noteq> Null \<Longrightarrow> n \<le> length ps \<Longrightarrow>
   parasLoop n ps (PropName p) v (res, st) =
     (res @ map (Obj Paragraph) (rev (take n ps)), setOnAll (rev (take n ps)) p v st)"
proof (induction n arbitrary: res st)
  case 0
  then show ?case by simp
next
  case (Suc n)
  then have "n < length ps" by simp
  then have "take (Suc n) ps = take n ps @ [ps ! n]"
    by (simp add: take_Suc_conv_app_nth)
  with Suc show ?case
    by (simp add: setter_step)
qed

lemma mapStep_other:
  "p' \<notin> fst ` set kvs \<Longrightarrow>
   getProperty (snd (getOrSetProperties (PropMap kvs) v t rs)) q p' = getProperty (snd rs) q p'"
  by (simp add: getOrSetProperties_def actsAsGetter_def setProperties_def setEach_other)

lemma parasLoop_map_other:
  "p' \<notin> fst ` set kvs \<Longrightarrow>
   getProperty (snd (parasLoop n ps (PropMap kvs) v rs)) q p' = getProperty (snd rs) q p'"
  by (induction n arbitrary: rs) (simp_all add: mapStep_other)

lemma typo_read_paragraphs:
  assumes "isValid st r" and "k = Story \<or> k = TextFrame \<or> k = TextPath"
    and "parasOf st k r = Some ps" and "v = Undefined \<or> v = Null"
  shows "typo (TObj k r) (PropName p) v st =
           (Inr (RetArray (rev (map (\<lambda>q. getProperty st q p) ps))), st)"
  using assms by (auto simp: typo.simps parasLoop_get Let_def)

lemma typo_write_paragraphs:
  assumes "isValid st r" and "k = Story \<or> k = TextFrame \<or> k = TextPath"
    and "parasOf st k r = Some ps" and "v \<noteq> Undefined" and "v \<noteq> Null"
  shows "typo (TObj k r) (PropName p) v st =
           (Inr (RetArray (map (Obj Paragraph) (rev ps))), setOnAll (rev ps) p v st)"
  using assms by (auto simp: typo.simps parasLoop_set Let_def)

lemma typo_write_text:
  assumes "isValid st r" and "isText k" and "v \<noteq> Undefined" and "v \<noteq> Null"
  shows "typo (TObj k r) (PropName p) v st = (Inr (RetArray [Obj k r]), setProperty r p v st)"
  using assms by (auto simp: typo.simps setter_step isText_def)

lemma typo_read_text:
  assumes "isValid st r" and "isText k" and "v = Undefined \<or> v = Null"
  shows "typo (TObj k r) (PropName p) v st = (Inr (RetArray [getProperty st r p]), st)"
  using assms by (auto simp: typo.simps getter_step isText_def)

lemma typo_stale:
  "\<not> isValid st r \<Longrightarrow>
   typo (TObj k r) property v st =
     (Inr RetUndefined, st\<lparr>warnings := warnings st @ [TypoInvalidObject]\<rparr>)"
  by (simp add: typo.simps warning_def)

lemma typo_stamp_frame:
  assumes "isValid st r" and "p' \<notin> fst ` set kvs"
  shows "\<exists>res st1. typo (TObj TextFrame r) (PropMap kvs) v st = (Inr res, st1)
           \<and> getProperty st1 r p' = getProperty st r p'"
  using assms by (simp add: typo.simps parasOf_def Let_def parasLoop_map_other)

text \<open>
  A document, spread, page or layer: the results of the calls on its text frames are
  dropped, so what comes back (when no frame raises) is the empty \<^verbatim>\<open>result\<close>.
\<close>

lemma typo_container_result:
  assumes "k = Document \<or> k = Spread \<or> k = Page \<or> k = Layer" and "isValid st r"
    and "fst (typo (TObj k r) property v st) = Inr res"
  shows "res = RetArray []"
  using assms by (auto simp: typo.simps split: prod.splits sum.splits)

lemma map_const_replicate:
  "(\<And>x. x \<in> set xs \<Longrightarrow> f x = c) \<Longrightarrow> map f xs = replicate (length xs) c"
  by (induction xs) auto

section \<open>Facts about text and the styles\<close>

lemma placeText_numeric:
  "\<exists>st1. placeText txt (Num x) [y, w, h] st = (Inr (TextFrame, nextRef st), st1)
      \<and> isValid st1 (nextRef st)
      \<and> getProperty st1 (nextRef st) ''geometricBounds'' =
          Arr (map Num (textBounds (currRectMode st) x y w h))"
  by (simp add: placeText_def Let_def isValid_def setContents_valid addTextFrame_valid
      addTextFrame_next)

lemma stamp_keys: "''geometricBounds'' \<notin> fst ` set (stamp st)"
  by (simp add: stamp_def)

lemma text_pub_numeric:
  assumes "isString txt \<or> isNumber txt"
  shows "fst (text_pub txt (Num x) [y, w, h] st) = Inr (Obj TextFrame (nextRef st))
      \<and> getProperty (snd (text_pub txt (Num x) [y, w, h] st)) (nextRef st) ''geometricBounds'' =
          Arr (map Num (textBounds (currRectMode st) x y w h))"
proof -
  obtain st1 where p: "placeText txt (Num x) [y, w, h] st = (Inr (TextFrame, nextRef st), st1)"
    and v: "isValid st1 (nextRef st)"
    and b: "getProperty st1 (nextRef st) ''geometricBounds'' =
              Arr (map Num (textBounds (currRectMode st) x y w h))"
    using placeText_numeric by blast
  obtain res st2
    where t: "typo (TObj TextFrame (nextRef st)) (PropMap (stamp st1)) Undefined st1 = (Inr res, st2)"
    and g: "getProperty st2 (nextRef st) ''geometricBounds'' =
              getProperty st1 (nextRef st) ''geometricBounds''"
    using typo_stamp_frame [OF v stamp_keys] by blast
  have "text_pub txt (Num x) [y, w, h] st = (Inr (Obj TextFrame (nextRef st)), st2)"
    using assms p t by (simp add: text_pub_def)
  then show ?thesis
    using g b by simp
qed

lemma find_snoc_new:
  "(\<And>x. x \<in> set xs \<Longrightarrow> x \<noteq> f \<Longrightarrow> \<not> P x) \<Longrightarrow> P f \<Longrightarrow> find P (xs @ [f]) = Some f"
  by (induction xs) auto

lemma addCharacterStyle_fst [simp]: "fst (addCharacterStyle n st) = nextRef st"
  by (simp add: addCharacterStyle_def Let_def hostNew_def)

lemma addCharacterStyle_styles:
  "allCharacterStyles (snd (addCharacterStyle n st)) = allCharacterStyles st @ [nextRef st]"
  by (simp add: addCharacterStyle_def Let_def hostNew_def setProperty_def)

lemma addCharacterStyle_objs:
  "q \<noteq> nextRef st \<Longrightarrow> objs (snd (addCharacterStyle n st)) q = objs st q"
  by (simp add: addCharacterStyle_def Let_def hostNew_def setProperty_def)

lemma addCharacterStyle_name:
  "getProperty (snd (addCharacterStyle n st)) q ''name'' =
     (if q = nextRef st then Str n else getProperty st q ''name'')"
  by (simp add: addCharacterStyle_def Let_def hostNew_def setProperty_def getProperty_def)

lemma find_after_add:
  assumes "findInStylesByName st (allCharacterStyles st) n = None"
  shows "findInStylesByName (snd (addCharacterStyle n st))
           (allCharacterStyles st @ [nextRef st]) n = Some (nextRef st)"
proof -
  have none: "\<And>x. x \<in> set (allCharacterStyles st) \<Longrightarrow> getProperty st x ''name'' \<noteq> Str n"
    using assms by (auto simp: findInStylesByName_def find_None_iff)
  show ?thesis
    unfolding findInStylesByName_def
    by (rule find_snoc_new) (simp_all add: addCharacterStyle_name none)
qed

lemma characterStyle_found:
  "findInStylesByName st (allCharacterStyles st) n = Some s \<Longrightarrow>
   characterStyle [Str n] st = (Inr (Obj CharacterStyle s), st)"
  by (simp add: characterStyle_def arg_def truthy_def)

lemma characterStyle_absent:
  "findInStylesByName st (allCharacterStyles st) n = None \<Longrightarrow>
   characterStyle [Str n] st =
     (Inr (Obj CharacterStyle (nextRef st)), snd (addCharacterStyle n st))"
  by (simp add: characterStyle_def arg_def truthy_def Let_def)

section \<open>Facts about the concrete document\<close>

lemma example_fields [simp]:
  "objs exampleState = exampleObjs"
  "nextRef exampleState = 20"
  "allCharacterStyles exampleState = [12]"
  "fonts exampleState = exampleFonts"
  "currRectMode exampleState = CORNER"
  "currFontSize exampleState = 12"
  "currAlign exampleState = Enum ''LEFT_ALIGN''"
  "currFont exampleState = helvetica ''Regular''"
  "warnings exampleState = []"
  by (simp_all add: exampleState_def)

lemma example_frame [simp]:
  "isValid exampleState 3"
  "parasOf exampleState TextFrame 3 = Some [4, 5]"
  "paragraphs (exampleObjs 3) = [4, 5]"
  "getProperty exampleState 4 ''pointSize'' = Num 10"
  "getProperty exampleState 5 ''pointSize'' = Num 20"
  by (simp_all add: isValid_def parasOf_def getProperty_def exampleObjs_def emptyObj_def)

lemma example_others [simp]:
  "isValid exampleState 4"
  "\<not> isValid exampleState 6"
  "isValid exampleState 13"
  by (simp_all add: isValid_def exampleObjs_def emptyObj_def)

lemma example_styles [simp]:
  "findInStylesByName exampleState [12] ''Title'' = Some 12"
  "findInStylesByName exampleState [12] ''NewStyle'' = None"
  by (simp_all add: findInStylesByName_def getProperty_def exampleObjs_def)

lemma example_document [simp]:
  "isValid exampleState 7"
  "textFrames (exampleObjs 7) = [3]"
  by (simp_all add: isValid_def exampleObjs_def emptyObj_def)

text \<open>
  Reading through the document: its frame has two paragraphs, and the list returned is
  empty, since the values read by the call on the frame are dropped.
\<close>

lemma typo_document_example:
  "paragraphs (objs exampleState 3) = [4, 5]
   \<and> typo (TObj Document 7) (PropName ''pointSize'') Undefined exampleState =
       (Inr (RetArray []), exampleState)"
  using typo_read_paragraphs [of exampleState 3 TextFrame "[4, 5]" Undefined "''pointSize''"]
  by (simp add: typo.simps(2) [where k = Document])

text \<open>
  Writing through the document reaches both paragraphs of its frame (the loop on the
  frame sets the last one first), and returns the empty list all the same.
\<close>

lemma example_document_write:
  "typo (TObj Document 7) (PropName ''pointSize'') (Num 14) exampleState =
     (Inr (RetArray []),
      setProperty 4 ''pointSize'' (Num 14) (setProperty 5 ''pointSize'' (Num 14) exampleState))"
  using typo_write_paragraphs [of exampleState 3 TextFrame "[4, 5]" "Num 14" "''pointSize''"]
  by (simp add: typo.simps(2) [where k = Document])

lemma example_document_read_after:
  "typo (TObj Document 7) (PropName ''pointSize'') Undefined
       (setProperty 4 ''pointSize'' (Num 14) (setProperty 5 ''pointSize'' (Num 14) exampleState)) =
     (Inr (RetArray []),
      setProperty 4 ''pointSize'' (Num 14) (setProperty 5 ''pointSize'' (Num 14) exampleState))"
proof -
  let ?st1 = "setProperty 4 ''pointSize'' (Num 14)
                (setProperty 5 ''pointSize'' (Num 14) exampleState)"
  have "typo (TObj TextFrame 3) (PropName ''pointSize'') Undefined ?st1 =
          (Inr (RetArray (rev (map (\<lambda>q. getProperty ?st1 q ''pointSize'') [4, 5]))), ?st1)"
    by (rule typo_read_paragraphs) simp_all
  moreover have "isValid ?st1 7" by simp
  moreover have "textFrames (objs ?st1 7) = [3]" by simp
  ultimately show ?thesis
    by (simp add: typo.simps(2) [where k = Document])
qed

section \<open>The claims\<close>

subsection \<open>C1: the bounds of a placed text frame\<close>

text \<open>
  C1 (as the code has it). For every call \<^verbatim>\<open>text(txt, x, y, w, h)\<close> with a string or number
  \<^verbatim>\<open>txt\<close> and four numbers, a text frame is created, and the geometric bounds
  [top, left, bottom, right] assigned to it are those of the active rectangle mode:
  CORNER gives [y, x, y+h, x+w]; CORNERS gives [y, x, h, w]; CENTER gives
  [y-h/2, x-w/2, y+h/2, x+w/2]; RADIUS gives [y-h, x-w, y+h, x+w]. In particular, text
  placed at (50,50,100,200) in CORNER mode gets top=50, left=50, bottom=250, right=150:
  the third number is the width and the fourth the height.
\<close>

theorem text_bounds:
  assumes "isString txt \<or> isNumber txt"
  shows "fst (text_pub txt (Num x) [y, w, h] st) = Inr (Obj TextFrame (nextRef st))
      \<and> getProperty (snd (text_pub txt (Num x) [y, w, h] st)) (nextRef st) ''geometricBounds'' =
          Arr (map Num (case currRectMode st of
                 CORNER \<Rightarrow> [y, x, y + h, x + w]
               | CORNERS \<Rightarrow> [y, x, h, w]
               | CENTER \<Rightarrow> [y - h / 2, x - w / 2, y + h / 2, x + w / 2]
               | RADIUS \<Rightarrow> [y - h, x - w, y + h, x + w]))
      \<and> (currRectMode st = CORNER \<longrightarrow>
            getProperty (snd (text_pub txt (Num 50) [50, 100, 200] st)) (nextRef st)
              ''geometricBounds'' = Arr [Num 50, Num 50, Num 250, Num 150])"
proof -
  have "textBounds (currRectMode st) x y w h =
          (case currRectMode st of
             CORNER \<Rightarrow> [y, x, y + h, x + w]
           | CORNERS \<Rightarrow> [y, x, h, w]
           | CENTER \<Rightarrow> [y - h / 2, x - w / 2, y + h / 2, x + w / 2]
           | RADIUS \<Rightarrow> [y - h, x - w, y + h, x + w])"
    by (cases "currRectMode st") (simp_all add: textBounds_def)
  moreover have "currRectMode st = CORNER \<Longrightarrow>
      textBounds (currRectMode st) 50 50 100 200 = [50, 50, 250, 150]"
    by (simp add: textBounds_def)
  ultimately show ?thesis
    using text_pub_numeric [OF assms, of x y w h st]
      text_pub_numeric [OF assms, of 50 50 100 200 st]
    by simp
qed

text \<open>The theorem at the scenario of the spec: "Hello" at (50,50,100,200), CORNER mode.\<close>

theorem text_bounds_witness:
  "(isString (Str ''Hello'') \<or> isNumber (Str ''Hello''))
   \<and> currRectMode exampleState = CORNER
   \<and> fst (text_pub (Str ''Hello'') (Num 50) [50, 100, 200] exampleState) = Inr (Obj TextFrame 20)
   \<and> getProperty (snd (text_pub (Str ''Hello'') (Num 50) [50, 100, 200] exampleState)) 20
        ''geometricBounds'' = Arr [Num 50, Num 50, Num 250, Num 150]"
  using text_bounds [of "Str ''Hello''" 50 50 100 200 exampleState]
  by simp

text \<open>
  The scenario as the spec states it (bottom=150, right=250) is not what the frame gets:
  its bounds are [50, 50, 250, 150].
\<close>

theorem text_bounds_counterexample:
  "currRectMode exampleState = CORNER
   \<and> fst (text_pub (Str ''Hello'') (Num 50) [50, 100, 200] exampleState) = Inr (Obj TextFrame 20)
   \<and> getProperty (snd (text_pub (Str ''Hello'') (Num 50) [50, 100, 200] exampleState)) 20
        ''geometricBounds'' = Arr [Num 50, Num 50, Num 250, Num 150]
   \<and> getProperty (snd (text_pub (Str ''Hello'') (Num 50) [50, 100, 200] exampleState)) 20
        ''geometricBounds'' \<noteq> Arr [Num 50, Num 50, Num 150, Num 250]"
  using text_pub_numeric [of "Str ''Hello''" 50 50 100 200 exampleState]
  by (simp add: textBounds_def)

subsection \<open>C2: the order of the values a read returns\<close>

text \<open>
  C2 (as the code has it). For every valid Story, TextFrame or TextPath target, a read
  call \<^verbatim>\<open>typo(target, property)\<close> (a property name and no value, or \<^verbatim>\<open>null\<close>) returns
  one value per paragraph of the target (of the first text, for a text path), in reverse
  document order: the value of the last paragraph first. The state is not changed.
\<close>

theorem typo_read_order:
  assumes "isValid st r" and "k = Story \<or> k = TextFrame \<or> k = TextPath"
    and "parasOf st k r = Some ps" and "v = Undefined \<or> v = Null"
  shows "typo (TObj k r) (PropName p) v st =
           (Inr (RetArray (rev (map (\<lambda>q. getProperty st q p) ps))), st)
       \<and> length (rev (map (\<lambda>q. getProperty st q p) ps)) = length ps"
  using typo_read_paragraphs [OF assms] by simp

theorem typo_read_order_witness:
  "isValid exampleState 3 \<and> parasOf exampleState TextFrame 3 = Some [4, 5]
   \<and> typo (TObj TextFrame 3) (PropName ''pointSize'') Undefined exampleState =
       (Inr (RetArray [Num 20, Num 10]), exampleState)"
  using typo_read_order [of exampleState 3 TextFrame "[4, 5]" Undefined "''pointSize''"]
  by simp

text \<open>
  The frame's paragraphs have point sizes 10 and 20, in document order; the read returns
  20 first.
\<close>

theorem typo_read_order_counterexample:
  "isValid exampleState 3
   \<and> map (\<lambda>q. getProperty exampleState q ''pointSize'') (paragraphs (objs exampleState 3)) =
       [Num 10, Num 20]
   \<and> fst (typo (TObj TextFrame 3) (PropName ''pointSize'') Undefined exampleState) =
       Inr (RetArray [Num 20, Num 10])
   \<and> fst (typo (TObj TextFrame 3) (PropName ''pointSize'') Undefined exampleState) \<noteq>
       Inr (RetArray [Num 10, Num 20])"
  using typo_read_paragraphs [of exampleState 3 TextFrame "[4, 5]" Undefined "''pointSize''"]
  by simp

subsection \<open>C3: reading after writing\<close>

text \<open>
  Where the units are reached directly, the round trip is as it should be: for every
  property name and every value \<^verbatim>\<open>v\<close> that makes the three-argument call a write (any
  but \<^verbatim>\<open>undefined\<close> and \<^verbatim>\<open>null\<close>), on a valid text range, Story, TextFrame or TextPath,
  the read after the write returns \<^verbatim>\<open>v\<close> once per unit. Property assignment is a plain
  store here: the host neither refuses nor normalises a value.
\<close>

lemma typo_roundtrip_units:
  assumes "isValid st r" and "v \<noteq> Undefined" and "v \<noteq> Null"
  shows "(isText k \<longrightarrow>
            typo (TObj k r) (PropName p) Undefined (snd (typo (TObj k r) (PropName p) v st)) =
              (Inr (RetArray [v]), snd (typo (TObj k r) (PropName p) v st)))
       \<and> ((k = Story \<or> k = TextFrame \<or> k = TextPath) \<and> parasOf st k r = Some ps \<longrightarrow>
            typo (TObj k r) (PropName p) Undefined (snd (typo (TObj k r) (PropName p) v st)) =
              (Inr (RetArray (replicate (length ps) v)), snd (typo (TObj k r) (PropName p) v st)))"
proof (intro conjI impI)
  assume t: "isText k"
  have "isValid (setProperty r p v st) r"
    using assms(1) by (simp add: isValid_def)
  then show "typo (TObj k r) (PropName p) Undefined (snd (typo (TObj k r) (PropName p) v st)) =
              (Inr (RetArray [v]), snd (typo (TObj k r) (PropName p) v st))"
    using assms t by (simp add: typo_write_text typo_read_text)
next
  assume h: "(k = Story \<or> k = TextFrame \<or> k = TextPath) \<and> parasOf st k r = Some ps"
  let ?st1 = "setOnAll (rev ps) p v st"
  have w: "typo (TObj k r) (PropName p) v st =
             (Inr (RetArray (map (Obj Paragraph) (rev ps))), ?st1)"
    using assms h by (simp add: typo_write_paragraphs)
  have "typo (TObj k r) (PropName p) Undefined ?st1 =
          (Inr (RetArray (rev (map (\<lambda>q. getProperty ?st1 q p) ps))), ?st1)"
    using assms h by (intro typo_read_paragraphs) simp_all
  moreover have "map (\<lambda>q. getProperty ?st1 q p) ps = replicate (length ps) v"
    by (rule map_const_replicate) simp
  ultimately show
    "typo (TObj k r) (PropName p) Undefined (snd (typo (TObj k r) (PropName p) v st)) =
       (Inr (RetArray (replicate (length ps) v)), snd (typo (TObj k r) (PropName p) v st))"
    using w by simp
qed

lemma typo_roundtrip_units_example:
  "isValid exampleState 3 \<and> Num 14 \<noteq> Undefined \<and> Num 14 \<noteq> Null
   \<and> parasOf exampleState TextFrame 3 = Some [4, 5]
   \<and> fst (typo (TObj TextFrame 3) (PropName ''pointSize'') Undefined
            (snd (typo (TObj TextFrame 3) (PropName ''pointSize'') (Num 14) exampleState)))
       = Inr (RetArray [Num 14, Num 14])
   \<and> isValid exampleState 4 \<and> isText Paragraph
   \<and> fst (typo (TObj Paragraph 4) (PropName ''pointSize'') Undefined
            (snd (typo (TObj Paragraph 4) (PropName ''pointSize'') (Num 14) exampleState)))
       = Inr (RetArray [Num 14])"
  using typo_roundtrip_units [of exampleState 3 "Num 14" TextFrame "''pointSize''" "[4, 5]"]
    typo_roundtrip_units [of exampleState 4 "Num 14" Paragraph "''pointSize''" "[]"]
  by (simp add: isText_def numeral_2_eq_2)

text \<open>
  C3. The read \<^verbatim>\<open>typo(target, property)\<close> right after the write
  \<^verbatim>\<open>typo(target, property, v)\<close> on the same resolvable target is to return \<^verbatim>\<open>v\<close> for every
  resolved unit. On a Document (and likewise a Spread, Page or Layer) the code does not:
  the branch calls \<^verbatim>\<open>typo\<close> on each text frame and drops what the calls return. On the
  document 7, whose frame has the paragraphs 4 and 5, the write of 14 sets the point size
  of both paragraphs, and the read after it returns the empty list, not \<^verbatim>\<open>[14, 14]\<close>.
\<close>

theorem typo_write_then_read_document:
  "isValid exampleState 7
   \<and> textFrames (objs exampleState 7) = [3]
   \<and> paragraphs (objs exampleState 3) = [4, 5]
   \<and> fst (typo (TObj Document 7) (PropName ''pointSize'') (Num 14) exampleState) =
       Inr (RetArray [])
   \<and> getProperty (snd (typo (TObj Document 7) (PropName ''pointSize'') (Num 14) exampleState))
        4 ''pointSize'' = Num 14
   \<and> getProperty (snd (typo (TObj Document 7) (PropName ''pointSize'') (Num 14) exampleState))
        5 ''pointSize'' = Num 14
   \<and> fst (typo (TObj Document 7) (PropName ''pointSize'') Undefined
            (snd (typo (TObj Document 7) (PropName ''pointSize'') (Num 14) exampleState))) =
       Inr (RetArray [])
   \<and> fst (typo (TObj Document 7) (PropName ''pointSize'') Undefined
            (snd (typo (TObj Document 7) (PropName ''pointSize'') (Num 14) exampleState))) \<noteq>
       Inr (RetArray [Num 14, Num 14])"
  by (simp add: example_document_write example_document_read_after)

subsection \<open>C4: a stale target\<close>

text \<open>
  C4. A call of \<^verbatim>\<open>typo\<close> with a host reference that is not valid any more is to emit
  exactly one warning, raise no error and return an empty list. The code emits the one
  warning and raises nothing, but leaves with a bare \<^verbatim>\<open>return;\<close>: on the stale
  reference 6 the write \<^verbatim>\<open>typo(item, "pointSize", 12)\<close> returns \<^verbatim>\<open>undefined\<close>, not the
  empty array. The function's documentation promises an array, and its other path that
  does nothing (a valid item of no recognised type, here the colour 13) returns the empty
  \<^verbatim>\<open>result\<close>.
\<close>

theorem typo_stale_returns_undefined:
  "\<not> isValid exampleState 6
   \<and> fst (typo (TObj TextFrame 6) (PropName ''pointSize'') (Num 12) exampleState) =
       Inr RetUndefined
   \<and> warnings (snd (typo (TObj TextFrame 6) (PropName ''pointSize'') (Num 12) exampleState)) =
       [TypoInvalidObject]
   \<and> fst (typo (TObj TextFrame 6) (PropName ''pointSize'') (Num 12) exampleState) \<noteq>
       Inr (RetArray [])
   \<and> isValid exampleState 13
   \<and> fst (typo (TObj Color 13) (PropName ''pointSize'') (Num 12) exampleState) =
       Inr (RetArray [])"
  using typo_stale [of exampleState 6 TextFrame "PropName ''pointSize''" "Num 12"]
  by (simp add: typo.simps(2) [where k = Color] isText_def)

subsection \<open>C5: resolving a character style by name\<close>

text \<open>
  C5. \<^verbatim>\<open>characterStyle(name)\<close> is an idempotent get-or-create by name: the call succeeds
  with a style \<open>s\<close>, which is the style a search for \<^verbatim>\<open>name\<close> finds in the document the
  call leaves; the same call on that state returns the same \<open>s\<close> and leaves the state as
  it is. When a style of that name existed, \<open>s\<close> is the one the search found before the
  call, and the call changes nothing. When none did, \<open>s\<close> is the host's new object,
  named \<^verbatim>\<open>name\<close>, added after the document's styles; and where the document's styles
  are objects the host allocated before, \<open>s\<close> is none of them and they are as they were.
\<close>

theorem characterStyle_idempotent:
  "\<exists>s. fst (characterStyle [Str n] st) = Inr (Obj CharacterStyle s)
      \<and> findInStylesByName (snd (characterStyle [Str n] st))
            (allCharacterStyles (snd (characterStyle [Str n] st))) n = Some s
      \<and> characterStyle [Str n] (snd (characterStyle [Str n] st)) =
          (Inr (Obj CharacterStyle s), snd (characterStyle [Str n] st))
      \<and> (findInStylesByName st (allCharacterStyles st) n \<noteq> None \<longrightarrow>
            findInStylesByName st (allCharacterStyles st) n = Some s
            \<and> snd (characterStyle [Str n] st) = st)
      \<and> (findInStylesByName st (allCharacterStyles st) n = None \<longrightarrow>
            s = nextRef st
            \<and> allCharacterStyles (snd (characterStyle [Str n] st)) = allCharacterStyles st @ [s]
            \<and> getProperty (snd (characterStyle [Str n] st)) s ''name'' = Str n
            \<and> ((\<forall>q \<in> set (allCharacterStyles st). q < nextRef st) \<longrightarrow>
                  s \<notin> set (allCharacterStyles st)
                  \<and> (\<forall>q \<in> set (allCharacterStyles st).
                        objs (snd (characterStyle [Str n] st)) q = objs st q)))"
proof (cases "findInStylesByName st (allCharacterStyles st) n")
  case None
  let ?st1 = "snd (addCharacterStyle n st)"
  have f: "findInStylesByName ?st1 (allCharacterStyles ?st1) n = Some (nextRef st)"
    using None by (simp add: addCharacterStyle_styles find_after_add)
  then have "characterStyle [Str n] ?st1 = (Inr (Obj CharacterStyle (nextRef st)), ?st1)"
    by (rule characterStyle_found)
  moreover have "(\<forall>q \<in> set (allCharacterStyles st). q < nextRef st) \<longrightarrow>
      nextRef st \<notin> set (allCharacterStyles st)
      \<and> (\<forall>q \<in> set (allCharacterStyles st). objs ?st1 q = objs st q)"
    by (auto simp: addCharacterStyle_objs)
  ultimately show ?thesis
    using None f
    by (simp add: characterStyle_absent addCharacterStyle_styles addCharacterStyle_name)
next
  case (Some s)
  then show ?thesis
    by (simp add: characterStyle_found)
qed

text \<open>
  The theorem on a hit (Title, the style 12) and on a miss (NewStyle, created as the
  object 20, with the style 12 untouched).
\<close>

theorem characterStyle_idempotent_witness:
  "findInStylesByName exampleState (allCharacterStyles exampleState) ''Title'' \<noteq> None
   \<and> fst (characterStyle [Str ''Title''] exampleState) = Inr (Obj CharacterStyle 12)
   \<and> getProperty exampleState 12 ''name'' = Str ''Title''
   \<and> snd (characterStyle [Str ''Title''] exampleState) = exampleState
   \<and> findInStylesByName exampleState (allCharacterStyles exampleState) ''NewStyle'' = None
   \<and> allCharacterStyles exampleState = [12] \<and> (12::nat) < nextRef exampleState
   \<and> fst (characterStyle [Str ''NewStyle''] exampleState) = Inr (Obj CharacterStyle 20)
   \<and> characterStyle [Str ''NewStyle''] (snd (characterStyle [Str ''NewStyle''] exampleState)) =
       (Inr (Obj CharacterStyle 20), snd (characterStyle [Str ''NewStyle''] exampleState))
   \<and> allCharacterStyles (snd (characterStyle [Str ''NewStyle''] exampleState)) = [12, 20]
   \<and> objs (snd (characterStyle [Str ''NewStyle''] exampleState)) 12 = objs exampleState 12"
  using characterStyle_idempotent [of "''Title''" exampleState]
    characterStyle_idempotent [of "''NewStyle''" exampleState]
  by (auto simp: getProperty_def exampleObjs_def)

subsection \<open>C6: applying a missing style against resolving it\<close>

text \<open>
  C6. For every style name absent from the document's character styles,
  \<^verbatim>\<open>applyCharacterStyle(target, name)\<close> raises the error "a character style named ... does
  not exist" and leaves the state as it was (no style is created), while
  \<^verbatim>\<open>characterStyle(name)\<close> succeeds and adds a new style of that name, which a search by
  name then finds.
\<close>

theorem style_asymmetry:
  assumes "findInStylesByName st (allCharacterStyles st) n = None"
  shows "applyCharacterStyle t (Str n) st = (Inl (CharacterStyleDoesNotExist n), st)
      \<and> (\<exists>s. fst (characterStyle [Str n] st) = Inr (Obj CharacterStyle s)
             \<and> allCharacterStyles (snd (characterStyle [Str n] st)) = allCharacterStyles st @ [s]
             \<and> getProperty (snd (characterStyle [Str n] st)) s ''name'' = Str n
             \<and> findInStylesByName (snd (characterStyle [Str n] st))
                  (allCharacterStyles (snd (characterStyle [Str n] st))) n = Some s)"
  using assms
  by (simp add: applyCharacterStyle_def error_def characterStyle_absent find_after_add
      addCharacterStyle_styles addCharacterStyle_name)

theorem style_asymmetry_witness:
  "findInStylesByName exampleState (allCharacterStyles exampleState) ''NewStyle'' = None
   \<and> applyCharacterStyle (Obj TextFrame 3) (Str ''NewStyle'') exampleState =
       (Inl (CharacterStyleDoesNotExist ''NewStyle''), exampleState)
   \<and> (\<exists>s. fst (characterStyle [Str ''NewStyle''] exampleState) = Inr (Obj CharacterStyle s)
        \<and> allCharacterStyles (snd (characterStyle [Str ''NewStyle''] exampleState)) = [12, s])"
  using style_asymmetry [of exampleState "''NewStyle''" "Obj TextFrame 3"]
  by auto

subsection \<open>C7: a font size that is not positive\<close>

text \<open>
  C7. For every \<^verbatim>\<open>pointSize\<close> that is 0 or negative, \<^verbatim>\<open>textSize(pointSize)\<close> raises the
  error "textSize() must be greater than 0." and leaves the state, so also the current
  font size, as it was: \<^verbatim>\<open>textSize()\<close> after it returns the prior size.
\<close>

theorem textSize_rejects:
  "p \<le> 0 \<Longrightarrow> textSize [p] st = (Inl TextSizeNotPositive, st)
     \<and> textSize [] (snd (textSize [p] st)) = (Inr (currFontSize st), st)"
  by (simp add: textSize_def error_def)

theorem textSize_rejects_witness:
  "(0::real) \<le> 0 \<and> textSize [0] exampleState = (Inl TextSizeNotPositive, exampleState)
   \<and> textSize [] (snd (textSize [0] exampleState)) = (Inr 12, exampleState)"
  using textSize_rejects [of 0 exampleState]
  by (simp add: textSize_def)

subsection \<open>C8: a font that is not installed\<close>

text \<open>
  C8. When the font that \<^verbatim>\<open>textFont\<close> looks up (the name, a tab, and the style or
  "Regular") is not installed, the call appends one warning, leaves the current font and
  the rest of the state as they are, and returns the current font; no error is raised.
\<close>

theorem textFont_not_installed:
  "(status (fonts st (f @ [CHR 0x09] @ ''Regular'')) \<noteq> INSTALLED \<longrightarrow>
      textFont [f] st =
        (Inr (currFont st),
         st\<lparr>warnings := warnings st @
           [FontNotInstalled (replaceFirst (CHR 0x09) (CHR '' '') (f @ [CHR 0x09] @ ''Regular''))
              (fontFamily (currFont st)) (fontStyleName (currFont st))]\<rparr>))
   \<and> (status (fonts st (f @ [CHR 0x09] @ s)) \<noteq> INSTALLED \<longrightarrow>
      textFont [f, s] st =
        (Inr (currFont st),
         st\<lparr>warnings := warnings st @
           [FontNotInstalled (replaceFirst (CHR 0x09) (CHR '' '') (f @ [CHR 0x09] @ s))
              (fontFamily (currFont st)) (fontStyleName (currFont st))]\<rparr>))"
  by (simp add: textFont_def lookupFont_def warning_def)

theorem textFont_not_installed_witness:
  "status (fonts exampleState (''Futura'' @ [CHR 0x09] @ ''Regular'')) \<noteq> INSTALLED
   \<and> fst (textFont [''Futura''] exampleState) = Inr (currFont exampleState)
   \<and> currFont (snd (textFont [''Futura''] exampleState)) = currFont exampleState
   \<and> length (warnings (snd (textFont [''Futura''] exampleState))) = 1
   \<and> status (fonts exampleState (''Futura'' @ [CHR 0x09] @ ''Bold'')) \<noteq> INSTALLED
   \<and> fst (textFont [''Futura'', ''Bold''] exampleState) = Inr (currFont exampleState)
   \<and> currFont (snd (textFont [''Futura'', ''Bold''] exampleState)) = currFont exampleState
   \<and> length (warnings (snd (textFont [''Futura'', ''Bold''] exampleState))) = 1"
  using textFont_not_installed [of exampleState "''Futura''" "''Bold''"]
  by (simp add: exampleFonts_def)

subsection \<open>C9: getters and setters of the typography context\<close>

text \<open>
  C9 (as the code has it). Font, size, leading, kerning and tracking each have a
  getter/setter function: called without arguments it returns the current value and
  changes nothing; \<^verbatim>\<open>textLeading\<close>, \<^verbatim>\<open>textKerning\<close> and \<^verbatim>\<open>textTracking\<close> with one
  argument set and return it, \<^verbatim>\<open>textSize\<close> with one positive argument does, and
  \<^verbatim>\<open>textFont\<close> with one or two arguments does when the font is installed. Alignment has
  a setter only: \<^verbatim>\<open>textAlign\<close> returns \<^verbatim>\<open>undefined\<close> whatever its arguments, and sets
  the current alignment to its first argument and, given two, the vertical alignment to
  the second.
\<close>

theorem attribute_accessors:
  "textFont [] st = (Inr (currFont st), st)
   \<and> textSize [] st = (Inr (currFontSize st), st)
   \<and> textLeading [] st = (Inr (currLeading st), st)
   \<and> textKerning [] st = (Inr (currKerning st), st)
   \<and> textTracking [] st = (Inr (currTracking st), st)
   \<and> textLeading [v] st = (Inr v, st\<lparr>currLeading := v\<rparr>)
   \<and> textKerning [v] st = (Inr v, st\<lparr>currKerning := v\<rparr>)
   \<and> textTracking [v] st = (Inr v, st\<lparr>currTracking := v\<rparr>)
   \<and> (0 < p \<longrightarrow> textSize [p] st = (Inr p, st\<lparr>currFontSize := p\<rparr>))
   \<and> (status (fonts st (f @ [CHR 0x09] @ ''Regular'')) = INSTALLED \<longrightarrow>
        textFont [f] st = (Inr (fonts st (f @ [CHR 0x09] @ ''Regular'')),
                           st\<lparr>currFont := fonts st (f @ [CHR 0x09] @ ''Regular'')\<rparr>))
   \<and> (status (fonts st (f @ [CHR 0x09] @ s)) = INSTALLED \<longrightarrow>
        textFont [f, s] st = (Inr (fonts st (f @ [CHR 0x09] @ s)),
                              st\<lparr>currFont := fonts st (f @ [CHR 0x09] @ s)\<rparr>))
   \<and> fst (textAlign args st) = Inr Undefined
   \<and> textAlign [a] st = (Inr Undefined, st\<lparr>currAlign := a\<rparr>)
   \<and> textAlign [a, ya] st = (Inr Undefined, st\<lparr>currAlign := a, currYAlign := ya\<rparr>)"
  by (simp add: textFont_def lookupFont_def textSize_def textLeading_def textKerning_def
      textTracking_def textAlign_def arg_def Let_def)

theorem attribute_accessors_witness:
  "(0::real) < 14
   \<and> textSize [14] exampleState = (Inr 14, exampleState\<lparr>currFontSize := 14\<rparr>)
   \<and> status (fonts exampleState (''Helvetica'' @ [CHR 0x09] @ ''Regular'')) = INSTALLED
   \<and> fst (textFont [''Helvetica''] exampleState) = Inr (helvetica ''Regular'')
   \<and> status (fonts exampleState (''Helvetica'' @ [CHR 0x09] @ ''Bold'')) = INSTALLED
   \<and> fst (textFont [''Helvetica'', ''Bold''] exampleState) = Inr (helvetica ''Bold'')
   \<and> textSize [] exampleState = (Inr 12, exampleState)
   \<and> textFont [] exampleState = (Inr (helvetica ''Regular''), exampleState)"
  using attribute_accessors [where st = exampleState and v = "Num 1" and p = 14
      and f = "''Helvetica''" and s = "''Bold''" and args = "[]"
      and a = "Enum ''CENTER_ALIGN''" and ya = "Enum ''TOP_ALIGN''"]
  by (simp add: exampleFonts_def helvetica_def)

text \<open>
  \<^verbatim>\<open>textAlign()\<close> does not return the current alignment, and it does not leave it
  unchanged: it returns \<^verbatim>\<open>undefined\<close> and the alignment is \<^verbatim>\<open>undefined\<close> afterwards.
\<close>

theorem attribute_accessors_counterexample:
  "currAlign exampleState = Enum ''LEFT_ALIGN''
   \<and> fst (textAlign [] exampleState) = Inr Undefined
   \<and> fst (textAlign [] exampleState) \<noteq> Inr (currAlign exampleState)
   \<and> currAlign (snd (textAlign [] exampleState)) \<noteq> currAlign exampleState"
  by (simp add: textAlign_def arg_def)

subsection \<open>C10: an item of no recognised type\<close>

text \<open>
  C10. For every valid item that is no Document, Spread, Page, Layer, Story, TextFrame or
  TextPath and no text range, \<^verbatim>\<open>typo(item, property, value)\<close> returns the empty array,
  raises no error and changes nothing, so it emits no warning either.
\<close>

theorem typo_unrecognized:
  assumes "isValid st r"
    and "k \<notin> {Document, Spread, Page, Layer, Story, TextFrame, TextPath}"
    and "\<not> isText k"
  shows "typo (TObj k r) property v st = (Inr (RetArray []), st)"
  using assms by (simp add: typo.simps)

theorem typo_unrecognized_witness:
  "isValid exampleState 13
   \<and> Color \<notin> {Document, Spread, Page, Layer, Story, TextFrame, TextPath}
   \<and> \<not> isText Color
   \<and> typo (TObj Color 13) (PropName ''pointSize'') (Num 12) exampleState =
       (Inr (RetArray []), exampleState)"
  using typo_unrecognized [of exampleState 13 Color "PropName ''pointSize''" "Num 12"]
  by (simp add: isText_def)

end
